theory Spec2Isabelle
  imports Main "HOL-Library.Sublist"
begin

section \<open>The Page module (src/modules/page/page.js)\<close>

text \<open>
  The module is callback-driven JavaScript. The embedding is in direct style: a function
  that takes a continuation \<open>done\<close> returns the updated globals together with what it
  passes to \<open>done\<close>. The module's global variables, the document and the strict-error
  sink are the fields of one record, \<open>world\<close>; the collaborators that live in other
  modules (\<open>getTemplate\<close>, \<open>getContentType\<close>, \<open>getIdFromURL\<close>, the block module, \<open>$.ajax\<close>)
  are the fields of a second record, \<open>env\<close>, and every definition takes them as a
  parameter.
\<close>

subsection \<open>Values\<close>

text \<open>A JavaScript \<open>Error\<close> object, by its \<open>message\<close>.\<close>

datatype error = Error (message: string)

text \<open>A document node: a text node, or an element with its tag, its classes and its children.\<close>

datatype node = TextNode string | ElementNode string "string list" "node list"

text \<open>
  What a callee does with its continuation \<open>done (error, value)\<close>: it calls it
  (\<open>None\<close> stands for \<open>null\<close> and for a missing argument), it returns without ever
  calling it, or it throws.
\<close>

datatype 'a result = Callback "error option" "'a option" | NoCallback | Exception string

text \<open>
  A value stored as a Page Handler. The store accepts any JavaScript value; a function
  handler \<open>function (id, done)\<close> is modelled by what it does with \<open>done\<close>.
\<close>

datatype handler =
    HFunction "string \<Rightarrow> node result"
  | HString string
  | HUndefined
  | HNull
  | HBoolean bool
  | HNumber int
  | HObject

text \<open>JavaScript truthiness, as \<open>if (_handlers [type])\<close> and \<open>handler ? \<dots> : \<dots>\<close> test it.\<close>

fun truthy :: "handler \<Rightarrow> bool" where
  "truthy (HFunction f) = True"
| "truthy (HString s) = (s \<noteq> [])"
| "truthy HUndefined = False"
| "truthy HNull = False"
| "truthy (HBoolean b) = b"
| "truthy (HNumber n) = (n \<noteq> 0)"
| "truthy HObject = True"

text \<open>Modelled from the spec: jQuery's \<open>$.type\<close>, the runtime type inspection of a handler.\<close>

fun jQuery_type :: "handler \<Rightarrow> string" where
  "jQuery_type (HFunction f) = ''function''"
| "jQuery_type (HString s) = ''string''"
| "jQuery_type HUndefined = ''undefined''"
| "jQuery_type HNull = ''null''"
| "jQuery_type (HBoolean b) = ''boolean''"
| "jQuery_type (HNumber n) = ''number''"
| "jQuery_type HObject = ''object''"

text \<open>An identifier that may be \<open>null\<close>, \<open>undefined\<close> or the empty string is blank (\<open>!id\<close>).\<close>

fun blank :: "string option \<Rightarrow> bool" where
  "blank None = True"
| "blank (Some s) = (s = [])"

type_synonym uri = string

type_synonym element_ref = nat

text \<open>A Block Expansion Context: \<open>context.element\<close> and what \<open>context.getId ()\<close> returns.\<close>

record block_Context =
  element :: element_ref
  getId :: "string option"

text \<open>The Page Settings object that \<open>page_parseSettings\<close> builds.\<close>

record settings =
  default_page_id :: string
  error_page_template :: string

text \<open>
  The functions that the module registers are closures; each is represented by where it
  is written and by what it captures. A Page Load Handler is the function of line 151,
  the function of line 278 (over its \<open>context\<close>) or a handler of another module.
\<close>

datatype page_load_handler =
    ExpandDocumentBlocks
  | PageBlockReaction block_Context
  | ForeignReaction nat

text \<open>The two array references that \<open>addHandlers\<close> passes to \<open>Array.prototype.push\<close>.\<close>

datatype array_ref = Handlers_array | Argument_array "page_load_handler list"

datatype block_handler = Page_block

text \<open>The App Load Handler of line 157, a closure over \<open>settings\<close>.\<close>

datatype app_load_handler = PageAppLoad settings

text \<open>What reaches the strict-error sink: an \<open>Error\<close> object, or the string of \<open>page_scroll\<close>.\<close>

datatype reported = ErrorObject error | Warning string

datatype effect = Overlay_fadeIn nat | Overlay_fadeOut nat | Animate_scrollTop int

subsection \<open>The globals\<close>

record world =
  page_SETTINGS :: "settings option"
  PAGE_LOAD_HANDLERS :: "page_load_handler list"
  Array_prototype :: "array_ref list"
  page_HANDLERS :: "string \<rightharpoonup> handler"
  block_HANDLERS :: "(string \<times> block_handler) list"
  APP_LOAD_HANDLERS :: "app_load_handler list"
  strict_errors :: "reported list"
  containers :: "element_ref \<Rightarrow> node list"
  effects :: "effect list"

text \<open>
  \<open>page_SETTINGS\<close> is \<open>None\<close> while the variable holds \<open>null\<close>. \<open>PAGE_LOAD_HANDLERS\<close> is the
  private array \<open>_handlers\<close> of the one \<open>PageLoadHandlerStore\<close>, \<open>page_HANDLERS\<close> the lookup
  \<open>_handlers [type]\<close> of the one \<open>page_HandlerStore\<close> (\<open>None\<close> where it gives \<open>undefined\<close>).
  \<open>Array_prototype\<close> holds the elements of the object \<open>Array.prototype\<close>. \<open>block_HANDLERS\<close>
  and \<open>APP_LOAD_HANDLERS\<close> are the stores of the block module and of the application, as
  the list of what was added to them. \<open>containers\<close> gives the children of each element
  of the document that the module writes to, \<open>effects\<close> the animations it has started.
\<close>

type_synonym xml_document = "string \<Rightarrow> string"

record env =
  getContentType :: "string \<Rightarrow> string"
  getTemplate :: "string \<Rightarrow> error + node"
  getIdFromURL :: "uri \<Rightarrow> string option"
  getFragmentFromURL :: "uri \<Rightarrow> string option"
  ajax :: "string \<Rightarrow> string + xml_document"
  block_expandDocumentBlocks :: "string option \<Rightarrow> world \<Rightarrow> world \<times> node result"
  block_expandBlock :: "string \<Rightarrow> node option \<Rightarrow> world \<Rightarrow> world \<times> node result"
  foreign_reaction :: "nat \<Rightarrow> string option \<Rightarrow> world \<Rightarrow> world \<times> node result"
  fragment_top :: "world \<Rightarrow> string \<Rightarrow> int option"

text \<open>
  \<open>getTemplate reference\<close> is the failure or the element tree that the template loader
  passes to its continuation; \<open>ajax url\<close> the error text or the XML document of the
  request, a document being read by selector (\<open>$(selector, doc).text ()\<close>);
  \<open>fragment_top w i\<close> the offset of the element \<open>$('#' + i)\<close>, \<open>None\<close> when there is none.
\<close>

definition dquote :: string where
  "dquote = [CHR 0x22]"

definition page_SETTINGS_URL :: string where
  "page_SETTINGS_URL = ''modules/page/settings.xml''"

text \<open>
  Modelled from the spec: the strict-error channel, \<open>strictError\<close>, which is defined in
  another module: a process-wide reporting sink that records the report and returns.
\<close>

definition strictError :: "reported \<Rightarrow> world \<Rightarrow> world" where
  "strictError e w = w\<lparr>strict_errors := strict_errors w @ [e]\<rparr>"

subsection \<open>jQuery on the document\<close>

text \<open>
  Modelled from the spec: the jQuery calls of the module. \<open>empty\<close> removes the children
  of a container, \<open>append\<close> adds an element after them (and nothing for \<open>null\<close>), \<open>text\<close>
  is the text of the descendants, and \<open>$('.page_error_block', template).replaceWith (m)\<close>
  puts the message text \<open>m\<close> in the place of every descendant of the template that has
  the class \<open>page_error_block\<close>.
\<close>

definition jQuery_empty :: "element_ref \<Rightarrow> world \<Rightarrow> world" where
  "jQuery_empty c w = w\<lparr>containers := (containers w)(c := [])\<rparr>"

definition jQuery_append :: "element_ref \<Rightarrow> node option \<Rightarrow> world \<Rightarrow> world" where
  "jQuery_append c x w =
     (case x of
        None \<Rightarrow> w
      | Some n \<Rightarrow> w\<lparr>containers := (containers w)(c := containers w c @ [n])\<rparr>)"



fun is_page_error_block :: "node \<Rightarrow> bool" where
  "is_page_error_block (TextNode s) = False"
| "is_page_error_block (ElementNode tag classes children) = (''page_error_block'' \<in> set classes)"

fun replaceWith_page_error_block :: "string \<Rightarrow> node \<Rightarrow> node" where
  "replaceWith_page_error_block m (TextNode s) = TextNode s"
| "replaceWith_page_error_block m (ElementNode tag classes children) =
     ElementNode tag classes
       (map (\<lambda>k. if is_page_error_block k then TextNode m
                 else replaceWith_page_error_block m k) children)"


subsection \<open>PageLoadHandlerStore (lines 28 to 59): add and addHandlers\<close>

definition PageLoadHandlerStore_add :: "page_load_handler \<Rightarrow> world \<Rightarrow> world" where
  "PageLoadHandlerStore_add h w = w\<lparr>PAGE_LOAD_HANDLERS := PAGE_LOAD_HANDLERS w @ [h]\<rparr>"

text \<open>
  Line 44 is \<open>Array.prototype.push (_handlers, handlers)\<close>: \<open>push\<close> is called on the object
  \<open>Array.prototype\<close> with the two arrays as the values to add, so they become elements
  of \<open>Array.prototype\<close>, and \<open>_handlers\<close> is not written.
\<close>

definition PageLoadHandlerStore_addHandlers :: "page_load_handler list \<Rightarrow> world \<Rightarrow> world" where
  "PageLoadHandlerStore_addHandlers hs w =
     w\<lparr>Array_prototype := Array_prototype w @ [Handlers_array, Argument_array hs]\<rparr>"

subsection \<open>page_HandlerStore (lines 72 to 117)\<close>

definition page_HandlerStore_get :: "world \<Rightarrow> string \<Rightarrow> handler" where
  "page_HandlerStore_get w type =
     (case page_HANDLERS w type of None \<Rightarrow> HUndefined | Some h \<Rightarrow> h)"




subsection \<open>Resolving an identifier (lines 372 to 432)\<close>

definition template_result :: "error + node \<Rightarrow> node result" where
  "template_result r =
     (case r of Inl e \<Rightarrow> Callback (Some e) None | Inr t \<Rightarrow> Callback None (Some t))"

definition invalid_page_handler :: error where
  "invalid_page_handler =
     Error ''[page][page_applyPageHandler] Error: invalid page handler type. Page handlers must be either a string or a function.''"

text \<open>
  \<open>switch ($.type (handler))\<close>: the case \<open>'function'\<close> calls the handler, the case
  \<open>'string'\<close> loads the template of that name, the default reports and fails.
\<close>

fun page_applyPageHandler ::
  "env \<Rightarrow> handler \<Rightarrow> string \<Rightarrow> world \<Rightarrow> world \<times> node result" where
  "page_applyPageHandler env (HFunction f) pid w = (w, f pid)"
| "page_applyPageHandler env (HString reference) pid w =
     (w, template_result (getTemplate env reference))"
| "page_applyPageHandler env h pid w =
     (strictError (ErrorObject invalid_page_handler) w,
      Callback (Some invalid_page_handler) None)"

definition page_getPageElement :: "env \<Rightarrow> string \<Rightarrow> world \<Rightarrow> world \<times> node result" where
  "page_getPageElement env pid w =
     (let h = page_HandlerStore_get w (getContentType env pid)
      in if truthy h then page_applyPageHandler env h pid w else (w, Callback None None))"

definition error_page_load_prefix :: string where
  "error_page_load_prefix =
     ''[page][page_getErrorPageElement] Error: an error occured while trying to load the Error Page template. ''"

text \<open>
  \<open>page_SETTINGS.error_page_template\<close> throws a \<open>TypeError\<close> while \<open>page_SETTINGS\<close> is
  \<open>null\<close>.
\<close>

definition page_getErrorPageElement :: "env \<Rightarrow> error \<Rightarrow> world \<Rightarrow> world \<times> node result" where
  "page_getErrorPageElement env error w =
     (case page_SETTINGS w of
        None \<Rightarrow> (w, Exception ''TypeError'')
      | Some s \<Rightarrow>
          (case getTemplate env (error_page_template s) of
             Inl errorPageError \<Rightarrow>
               (w, Callback (Some (Error (error_page_load_prefix @ message errorPageError))) None)
           | Inr template \<Rightarrow>
               (w, Callback None (Some (replaceWith_page_error_block (message error) template)))))"

subsection \<open>Mounting (lines 330 to 351)\<close>

definition page_element_prefix :: string where
  "page_element_prefix =
     ''[page][page_setPageElement] Error: an error occured while trying to load a page element. ''"

definition page_setPageElement ::
  "env \<Rightarrow> element_ref \<Rightarrow> string \<Rightarrow> world \<Rightarrow> world \<times> node result" where
  "page_setPageElement env containerElement pid w =
     (case page_getPageElement env pid w of
        (w1, Callback (Some e) pageElement) \<Rightarrow>
          (let error = Error (page_element_prefix @ message e);
               w2 = strictError (ErrorObject error) w1
           in case page_getErrorPageElement env error w2 of
                (w3, Callback (Some errorPageError) errorPageElement) \<Rightarrow>
                  (w3, Callback (Some errorPageError) None)
              | (w3, Callback None errorPageElement) \<Rightarrow>
                  (jQuery_append containerElement errorPageElement
                     (jQuery_empty containerElement w3),
                   Callback (Some error) None)
              | (w3, NoCallback) \<Rightarrow> (w3, NoCallback)
              | (w3, Exception x) \<Rightarrow> (w3, Exception x))
      | (w1, Callback None pageElement) \<Rightarrow>
          (jQuery_append containerElement pageElement (jQuery_empty containerElement w1),
           Callback None pageElement)
      | (w1, NoCallback) \<Rightarrow> (w1, NoCallback)
      | (w1, Exception x) \<Rightarrow> (w1, Exception x))"

subsection \<open>The reactions and PageLoadHandlerStore.execute (lines 56 to 58)\<close>

text \<open>
  The function of line 278, registered by \<open>page_block\<close> over its \<open>context\<close>, and the
  continuation of line 288 that it gives to \<open>page_setPageElement\<close>.
\<close>

definition page_block_mounted ::
  "env \<Rightarrow> string \<Rightarrow> world \<times> node result \<Rightarrow> world \<times> node result" where
  "page_block_mounted env i m =
     (case m of
        (w1, Callback (Some error) pageElement) \<Rightarrow> (w1, Callback (Some error) None)
      | (w1, Callback None pageElement) \<Rightarrow> block_expandBlock env i pageElement w1
      | (w1, NoCallback) \<Rightarrow> (w1, NoCallback)
      | (w1, Exception x) \<Rightarrow> (w1, Exception x))"

definition page_block_reaction ::
  "env \<Rightarrow> block_Context \<Rightarrow> string option \<Rightarrow> world \<Rightarrow> world \<times> node result" where
  "page_block_reaction env ctx pid w =
     (case (if blank pid then getId ctx else pid) of
        None \<Rightarrow> (jQuery_empty (element ctx) w, Callback None None)
      | Some i \<Rightarrow>
          if i = [] then (jQuery_empty (element ctx) w, Callback None None)
          else page_block_mounted env i (page_setPageElement env (element ctx) i w))"

fun call_page_load_handler ::
  "env \<Rightarrow> page_load_handler \<Rightarrow> string option \<Rightarrow> world \<Rightarrow> world \<times> node result" where
  "call_page_load_handler env ExpandDocumentBlocks pid w = block_expandDocumentBlocks env pid w"
| "call_page_load_handler env (PageBlockReaction ctx) pid w = page_block_reaction env ctx pid w"
| "call_page_load_handler env (ForeignReaction k) pid w = foreign_reaction env k pid w"

text \<open>
  Modelled from the spec: \<open>async.applyEach\<close>, of the async library, which is not among
  the sources. The spec: it invokes every registered reaction with the identifier, in
  registration order, no reaction's output feeding another, waits for all of them to
  signal completion and then calls \<open>done\<close> with no result value; an error of a reaction
  is surfaced and cancels no other reaction. In direct style the loop carries the state
  of the join: whether some reaction has not called back, the first error signalled,
  and the first exception thrown, which the call ends with once every reaction has
  been invoked.
\<close>

datatype join = Join bool "error option" "string option"

fun applyEach_call ::
  "('h \<Rightarrow> string option \<Rightarrow> world \<Rightarrow> world \<times> 'a result) \<Rightarrow> string option \<Rightarrow> 'h \<Rightarrow>
   world \<times> join \<Rightarrow> world \<times> join" where
  "applyEach_call call pid h (w, Join pending err thrown) =
     (case call h pid w of
        (w1, Callback e v) \<Rightarrow> (w1, Join pending (if err = None then e else err) thrown)
      | (w1, NoCallback) \<Rightarrow> (w1, Join True err thrown)
      | (w1, Exception x) \<Rightarrow> (w1, Join pending err (if thrown = None then Some x else thrown)))"

fun applyEach_done :: "join \<Rightarrow> unit result" where
  "applyEach_done (Join pending err (Some x)) = Exception x"
| "applyEach_done (Join pending err None) = (if pending then NoCallback else Callback err None)"

definition async_applyEach ::
  "('h \<Rightarrow> string option \<Rightarrow> world \<Rightarrow> world \<times> 'a result) \<Rightarrow> 'h list \<Rightarrow> string option \<Rightarrow>
   world \<Rightarrow> world \<times> unit result" where
  "async_applyEach call hs pid w =
     (case fold (applyEach_call call pid) hs (w, Join False None None) of
        (w1, j) \<Rightarrow> (w1, applyEach_done j))"

definition PageLoadHandlerStore_execute ::
  "env \<Rightarrow> string option \<Rightarrow> world \<Rightarrow> world \<times> unit result" where
  "PageLoadHandlerStore_execute env pid w =
     async_applyEach (call_page_load_handler env) (PAGE_LOAD_HANDLERS w) pid w"

subsection \<open>page_block (lines 275 to 302)\<close>


subsection \<open>Effects (lines 436 to 462)\<close>


definition page_fadein :: "world \<Rightarrow> world" where
  "page_fadein w = w\<lparr>effects := effects w @ [Overlay_fadeOut 250]\<rparr>"

text \<open>Line 454, \<open>getFragmentFromURL (url) || 'top'\<close>.\<close>

definition scroll_fragmentId :: "env \<Rightarrow> uri \<Rightarrow> string" where
  "scroll_fragmentId env url =
     (case getFragmentFromURL env url of
        None \<Rightarrow> ''top''
      | Some f \<Rightarrow> if f = [] then ''top'' else f)"

definition scroll_warning :: "string \<Rightarrow> reported" where
  "scroll_warning fragmentId =
     Warning (''[page][page_scroll] Warning: This page does not have an element whose ID equals ''
              @ dquote @ fragmentId @ dquote @ ''.'')"

definition page_scroll :: "env \<Rightarrow> uri \<Rightarrow> world \<Rightarrow> world" where
  "page_scroll env url w =
     (let fragmentId = scroll_fragmentId env url
      in case fragment_top env w fragmentId of
           None \<Rightarrow> strictError (scroll_warning fragmentId) w
         | Some y \<Rightarrow> w\<lparr>effects := effects w @ [Animate_scrollTop y]\<rparr>)"

subsection \<open>Settings and the load handlers (lines 136 to 228)\<close>

definition page_parseSettings :: "xml_document \<Rightarrow> settings" where
  "page_parseSettings doc =
     \<lparr>default_page_id = doc ''settings > default_page_id'',
      error_page_template = doc ''settings > error_page_template''\<rparr>"

definition settings_load_error :: "string \<Rightarrow> string \<Rightarrow> error" where
  "settings_load_error url e =
     Error (''[page][page_loadSettings] Error: an error occured while trying to load the Page module's settings.xml file from ''
            @ dquote @ url @ dquote @ ''. '' @ e)"

definition page_loadSettings :: "env \<Rightarrow> string \<Rightarrow> world \<Rightarrow> world \<times> (error + settings)" where
  "page_loadSettings env url w =
     (case ajax env url of
        Inr doc \<Rightarrow> (w, Inr (page_parseSettings doc))
      | Inl e \<Rightarrow>
          (strictError (ErrorObject (settings_load_error url e)) w,
           Inl (settings_load_error url e)))"

text \<open>
  The App Load Handler of line 157. \<open>url\<close> is the location that \<open>new URI ()\<close> reads, and
  \<open>initial_page_id\<close> is line 161, \<open>getIdFromURL (url) || settings.default_page_id\<close>. The
  handler never calls its own \<open>done\<close>, so its result is never a \<open>Callback\<close>.
\<close>

definition initial_page_id :: "env \<Rightarrow> settings \<Rightarrow> uri \<Rightarrow> string" where
  "initial_page_id env s url =
     (case getIdFromURL env url of
        None \<Rightarrow> default_page_id s
      | Some i \<Rightarrow> if i = [] then default_page_id s else i)"

definition app_load_handler :: "env \<Rightarrow> settings \<Rightarrow> uri \<Rightarrow> world \<Rightarrow> world \<times> unit result" where
  "app_load_handler env s url w =
     (let pid = initial_page_id env s url
      in case PageLoadHandlerStore_execute env (Some pid) w of
           (w1, Callback e v) \<Rightarrow> (page_scroll env url (page_fadein w1), NoCallback)
         | (w1, NoCallback) \<Rightarrow> (w1, NoCallback)
         | (w1, Exception x) \<Rightarrow> (w1, Exception x))"

fun call_app_load_handler ::
  "env \<Rightarrow> app_load_handler \<Rightarrow> uri \<Rightarrow> world \<Rightarrow> world \<times> unit result" where
  "call_app_load_handler env (PageAppLoad s) url w = app_load_handler env s url w"

text \<open>
  The Module Load Handler of line 137; the second component is what it passes to its
  continuation, \<open>done (error)\<close> or \<open>done (null)\<close>.
\<close>

definition module_load_handler :: "env \<Rightarrow> world \<Rightarrow> world \<times> error option" where
  "module_load_handler env w =
     (case page_loadSettings env page_SETTINGS_URL w of
        (w1, Inl error) \<Rightarrow> (w1, Some error)
      | (w1, Inr s) \<Rightarrow>
          (let w2 = w1\<lparr>page_SETTINGS := Some s\<rparr>;
               w3 = w2\<lparr>block_HANDLERS := block_HANDLERS w2 @ [(''page_block'', Page_block)]\<rparr>;
               w4 = PageLoadHandlerStore_add ExpandDocumentBlocks w3;
               w5 = w4\<lparr>APP_LOAD_HANDLERS := APP_LOAD_HANDLERS w4 @ [PageAppLoad s]\<rparr>
           in (w5, None)))"


text \<open>The state in which the script has been loaded and nothing has run.\<close>

definition initial_world :: world where
  "initial_world =
     \<lparr>page_SETTINGS = None, PAGE_LOAD_HANDLERS = [], Array_prototype = [],
      page_HANDLERS = Map.empty, block_HANDLERS = [], APP_LOAD_HANDLERS = [],
      strict_errors = [], containers = (\<lambda>c. []), effects = []\<rparr>"

subsection \<open>The operations of the module\<close>





subsection \<open>The protocol between execute and its reactions\<close>

text \<open>
  Modelled from the spec: \<open>async.applyEach\<close> as the fan-out and join that the spec
  describes, with the reactions' completions as events of their own. \<open>Start_next\<close> is
  the loop of \<open>execute\<close> invoking the next registered reaction with the identifier; it
  waits for nothing. \<open>Complete i e\<close> is reaction \<open>i\<close> signalling completion, with an error
  or without, which a started reaction does once. When the last of the reactions has
  signalled, \<open>done\<close> is called with the first error surfaced and no result value. With
  no reaction registered \<open>done\<close> is called at once.
\<close>

datatype 'h event =
    is_Started: Started nat 'h "string option"
  | is_Completed: Completed nat "error option"
  | is_Done: Done_called "error option"








subsection \<open>A sample configuration\<close>

text \<open>
  One concrete set of collaborators and one concrete state, on which the theorems below
  are instantiated: content types are the part of an identifier before its colon, the
  only template that loads is \<open>error.tpl\<close>, and two function handlers are registered,
  one that fails and one that succeeds.
\<close>

definition sample_template :: node where
  "sample_template =
     ElementNode ''div'' [''error'']
       [TextNode ''Sorry. '', ElementNode ''span'' [''page_error_block''] []]"

definition sample_env :: env where
  "sample_env =
     \<lparr>getContentType = takeWhile (\<lambda>c. c \<noteq> CHR '':''),
      getTemplate = (\<lambda>r. if r = ''error.tpl'' then Inr sample_template
                         else Inl (Error ''404'')),
      getIdFromURL = (\<lambda>u. None),
      getFragmentFromURL = (\<lambda>u. None),
      ajax = (\<lambda>u. Inl ''Not Found''),
      block_expandDocumentBlocks = (\<lambda>pid w. (w, Callback None None)),
      block_expandBlock = (\<lambda>i n w. (w, Callback None n)),
      foreign_reaction = (\<lambda>k pid w. (w, Callback None None)),
      fragment_top = (\<lambda>w i. None)\<rparr>"

definition sample_settings :: settings where
  "sample_settings = \<lparr>default_page_id = ''home'', error_page_template = ''error.tpl''\<rparr>"

definition sample_world :: world where
  "sample_world =
     initial_world
       \<lparr>page_SETTINGS := Some sample_settings,
        page_HANDLERS :=
          [''broken'' \<mapsto> HFunction (\<lambda>i. Callback (Some (Error ''boom'')) None),
           ''static'' \<mapsto>
             HFunction (\<lambda>i. Callback None (Some (ElementNode ''div'' [] [TextNode ''hi''])))],
        containers := (\<lambda>c. [TextNode ''old''])\<rparr>"

text \<open>
  A second set of collaborators, for the bootstrap: the Settings document loads, and
  the block module's expansion of the document writes the identifier it is given into
  the element \<open>0\<close>.
\<close>

definition sample_document :: xml_document where
  "sample_document =
     (\<lambda>selector. if selector = ''settings > default_page_id'' then ''home''
                 else if selector = ''settings > error_page_template'' then ''error.tpl''
                 else [])"

definition bootstrap_env :: env where
  "bootstrap_env =
     sample_env
       \<lparr>ajax := (\<lambda>u. Inr sample_document),
        block_expandDocumentBlocks :=
          (\<lambda>pid w. (jQuery_append 0 (Some (TextNode (case pid of None \<Rightarrow> [] | Some i \<Rightarrow> i)))
                       (jQuery_empty 0 w),
                     Callback None None))\<rparr>"


section \<open>Properties\<close>

subsection \<open>What resolving and mounting leave alone\<close>

lemma page_applyPageHandler_frame:
  "page_applyPageHandler env h pid w = (w1, r) \<Longrightarrow>
     containers w1 = containers w \<and> page_SETTINGS w1 = page_SETTINGS w \<and>
     PAGE_LOAD_HANDLERS w1 = PAGE_LOAD_HANDLERS w"
  by (cases h) (auto simp: strictError_def)

lemma page_getPageElement_frame:
  "page_getPageElement env pid w = (w1, r) \<Longrightarrow>
     containers w1 = containers w \<and> page_SETTINGS w1 = page_SETTINGS w \<and>
     PAGE_LOAD_HANDLERS w1 = PAGE_LOAD_HANDLERS w"
  unfolding page_getPageElement_def Let_def
  by (auto split: if_splits dest: page_applyPageHandler_frame)

subsection \<open>The text of the error page\<close>




subsection \<open>The sample configuration, evaluated\<close>





subsection \<open>The registry of page handlers\<close>




subsection \<open>The list of reactions: addHandlers\<close>

text \<open>
  C2 fails on the code: \<open>addHandlers\<close> leaves the list of reactions as it was,
  whatever array it is given. On the initial state, \<open>addHandlers\<close> with an array of two
  reactions leaves the list empty: the two arrays have become elements of
  \<open>Array.prototype\<close>, and a subsequent \<open>execute\<close> runs no reaction and calls \<open>done\<close>.
\<close>

theorem PageLoadHandlerStore_addHandlers_appends_nothing:
  "PAGE_LOAD_HANDLERS (PageLoadHandlerStore_addHandlers hs w) = PAGE_LOAD_HANDLERS w \<and>
   PAGE_LOAD_HANDLERS
     (PageLoadHandlerStore_addHandlers [ForeignReaction 1, ForeignReaction 2] initial_world) = [] \<and>
   Array_prototype
     (PageLoadHandlerStore_addHandlers [ForeignReaction 1, ForeignReaction 2] initial_world) =
     [Handlers_array, Argument_array [ForeignReaction 1, ForeignReaction 2]] \<and>
   PageLoadHandlerStore_execute env pid
     (PageLoadHandlerStore_addHandlers [ForeignReaction 1, ForeignReaction 2] initial_world) =
     (PageLoadHandlerStore_addHandlers [ForeignReaction 1, ForeignReaction 2] initial_world,
      Callback None None)"
  by (simp add: PageLoadHandlerStore_addHandlers_def initial_world_def
      PageLoadHandlerStore_execute_def async_applyEach_def)

subsection \<open>Mounting: no handler, a failing handler, a failing error page\<close>






text \<open>
  C6. Let the resolution of the identifier fail, the settings be loaded and the error
  template fail to load with an error \<open>e2\<close>. Then mounting, having reported the
  resolution failure, passes to its continuation the error that
  \<open>page_getErrorPageElement\<close> built for \<open>e2\<close> (its own prefix followed by the message of
  \<open>e2\<close>), attempts nothing further, and leaves every container as it was.
\<close>

theorem page_setPageElement_error_page_failure:
  assumes g: "page_getPageElement env pid w = (w1, Callback (Some e) v)"
    and s: "page_SETTINGS w = Some s"
    and t: "getTemplate env (error_page_template s) = Inl e2"
  shows "page_setPageElement env c pid w =
           (strictError (ErrorObject (Error (page_element_prefix @ message e))) w1,
            Callback (Some (Error (error_page_load_prefix @ message e2))) None) \<and>
         snd (page_getErrorPageElement env (Error (page_element_prefix @ message e))
                (strictError (ErrorObject (Error (page_element_prefix @ message e))) w1)) =
           Callback (Some (Error (error_page_load_prefix @ message e2))) None \<and>
         containers (fst (page_setPageElement env c pid w)) = containers w \<and>
         strict_errors (fst (page_setPageElement env c pid w)) =
           strict_errors w1 @ [ErrorObject (Error (page_element_prefix @ message e))]"
proof -
  from page_getPageElement_frame [OF g] s have s1: "page_SETTINGS w1 = Some s"
    and c1: "containers w1 = containers w"
    by simp_all
  have f: "page_getErrorPageElement env (Error (page_element_prefix @ message e))
             (strictError (ErrorObject (Error (page_element_prefix @ message e))) w1) =
           (strictError (ErrorObject (Error (page_element_prefix @ message e))) w1,
            Callback (Some (Error (error_page_load_prefix @ message e2))) None)"
    using s1 t by (simp add: page_getErrorPageElement_def strictError_def)
  have "page_setPageElement env c pid w =
           (strictError (ErrorObject (Error (page_element_prefix @ message e))) w1,
            Callback (Some (Error (error_page_load_prefix @ message e2))) None)"
    using g f by (simp add: page_setPageElement_def Let_def)
  then show ?thesis
    using c1 f by (simp add: strictError_def)
qed

text \<open>
  C6 on the sample configuration, with the settings naming a template that does not load.
\<close>

theorem page_setPageElement_error_page_failure_witness:
  "page_getPageElement sample_env ''broken:x''
     (sample_world\<lparr>page_SETTINGS := Some (sample_settings\<lparr>error_page_template := ''gone.tpl''\<rparr>)\<rparr>) =
     (sample_world\<lparr>page_SETTINGS := Some (sample_settings\<lparr>error_page_template := ''gone.tpl''\<rparr>)\<rparr>,
      Callback (Some (Error ''boom'')) None) \<and>
   getTemplate sample_env ''gone.tpl'' = Inl (Error ''404'') \<and>
   snd (page_setPageElement sample_env 0 ''broken:x''
          (sample_world\<lparr>page_SETTINGS := Some (sample_settings\<lparr>error_page_template := ''gone.tpl''\<rparr>)\<rparr>)) =
     Callback (Some (Error (error_page_load_prefix @ ''404''))) None \<and>
   containers (fst (page_setPageElement sample_env 0 ''broken:x''
          (sample_world\<lparr>page_SETTINGS := Some (sample_settings\<lparr>error_page_template := ''gone.tpl''\<rparr>)\<rparr>))) 0 =
     [TextNode ''old'']"
proof -
  let ?w = "sample_world\<lparr>page_SETTINGS := Some (sample_settings\<lparr>error_page_template := ''gone.tpl''\<rparr>)\<rparr>"
  have g: "page_getPageElement sample_env ''broken:x'' ?w = (?w, Callback (Some (Error ''boom'')) None)"
    by (simp add: page_getPageElement_def page_HandlerStore_get_def sample_env_def
        sample_world_def initial_world_def)
  have s: "page_SETTINGS ?w = Some (sample_settings\<lparr>error_page_template := ''gone.tpl''\<rparr>)"
    by simp
  have t0: "getTemplate sample_env ''gone.tpl'' = Inl (Error ''404'')"
    by (simp add: sample_env_def)
  then have t: "getTemplate sample_env
      (error_page_template (sample_settings\<lparr>error_page_template := ''gone.tpl''\<rparr>)) = Inl (Error ''404'')"
    by simp
  have old: "containers ?w 0 = [TextNode ''old'']"
    by (simp add: sample_world_def initial_world_def)
  note th = page_setPageElement_error_page_failure [OF g s t, of 0]
  from th have r: "snd (page_setPageElement sample_env 0 ''broken:x'' ?w) =
      Callback (Some (Error (error_page_load_prefix @ ''404''))) None"
    by simp
  from th have "containers (fst (page_setPageElement sample_env 0 ''broken:x'' ?w)) =
      containers ?w"
    by blast
  with old have c0: "containers (fst (page_setPageElement sample_env 0 ''broken:x'' ?w)) 0 =
      [TextNode ''old'']"
    by simp
  from g t0 r c0 show ?thesis
    by blast
qed

subsection \<open>A handler of an invalid kind\<close>

text \<open>
  C9. A handler that is neither a function nor a string is not invoked:
  \<open>page_applyPageHandler\<close> reports the invalid-handler error through the strict-error
  channel, changes nothing else and passes that error to its continuation. When such a
  handler is the one registered for the type of an identifier (and is truthy, so that
  line 374 applies it), resolving the identifier has this outcome.
\<close>

theorem page_applyPageHandler_invalid_kind:
  "jQuery_type h \<noteq> ''function'' \<Longrightarrow> jQuery_type h \<noteq> ''string'' \<Longrightarrow>
   page_applyPageHandler env h pid w =
     (strictError (ErrorObject invalid_page_handler) w,
      Callback (Some invalid_page_handler) None) \<and>
   strict_errors (fst (page_applyPageHandler env h pid w)) =
     strict_errors w @ [ErrorObject invalid_page_handler] \<and>
   (truthy h \<and> page_HANDLERS w (getContentType env pid) = Some h \<longrightarrow>
      page_getPageElement env pid w =
        (strictError (ErrorObject invalid_page_handler) w,
         Callback (Some invalid_page_handler) None))"
  by (cases h)
    (simp_all add: strictError_def page_getPageElement_def page_HandlerStore_get_def)

text \<open>C9 for an object registered as the handler of the type \<open>odd\<close>.\<close>

theorem page_applyPageHandler_invalid_kind_witness:
  "jQuery_type HObject \<noteq> ''function'' \<and> jQuery_type HObject \<noteq> ''string'' \<and>
   truthy HObject \<and>
   page_HANDLERS (sample_world\<lparr>page_HANDLERS := [''odd'' \<mapsto> HObject]\<rparr>)
     (getContentType sample_env ''odd:1'') = Some HObject \<and>
   page_getPageElement sample_env ''odd:1''
     (sample_world\<lparr>page_HANDLERS := [''odd'' \<mapsto> HObject]\<rparr>) =
     (strictError (ErrorObject invalid_page_handler)
        (sample_world\<lparr>page_HANDLERS := [''odd'' \<mapsto> HObject]\<rparr>),
      Callback (Some invalid_page_handler) None)"
proof -
  let ?w = "sample_world\<lparr>page_HANDLERS := [''odd'' \<mapsto> HObject]\<rparr>"
  have a: "jQuery_type HObject \<noteq> ''function''"
    by simp
  have b: "jQuery_type HObject \<noteq> ''string''"
    by simp
  have c: "truthy HObject"
    by simp
  have d: "page_HANDLERS ?w (getContentType sample_env ''odd:1'') = Some HObject"
    by (simp add: sample_env_def)
  from page_applyPageHandler_invalid_kind [OF a b, of sample_env "''odd:1''" ?w] c d
  have "page_getPageElement sample_env ''odd:1'' ?w =
     (strictError (ErrorObject invalid_page_handler) ?w,
      Callback (Some invalid_page_handler) None)"
    by blast
  with a b c d show ?thesis
    by blast
qed

subsection \<open>Loading the settings\<close>

text \<open>
  C7. If the request for the Settings document fails, the module load handler passes
  the error of \<open>page_loadSettings\<close> to its continuation, and the only thing that has
  changed is the strict-error channel, which has received that error: \<open>page_SETTINGS\<close>,
  the block handlers, the page load handlers and the app load handlers are as before.
\<close>

theorem module_load_handler_settings_failure:
  "ajax env page_SETTINGS_URL = Inl e \<Longrightarrow>
   module_load_handler env w =
     (w\<lparr>strict_errors :=
          strict_errors w @ [ErrorObject (settings_load_error page_SETTINGS_URL e)]\<rparr>,
      Some (settings_load_error page_SETTINGS_URL e)) \<and>
   page_SETTINGS (fst (module_load_handler env w)) = page_SETTINGS w \<and>
   block_HANDLERS (fst (module_load_handler env w)) = block_HANDLERS w \<and>
   PAGE_LOAD_HANDLERS (fst (module_load_handler env w)) = PAGE_LOAD_HANDLERS w \<and>
   APP_LOAD_HANDLERS (fst (module_load_handler env w)) = APP_LOAD_HANDLERS w"
  by (simp add: module_load_handler_def page_loadSettings_def strictError_def)

text \<open>
  C7 on the initial state, with a request that fails: the settings stay unset and
  the three stores stay empty.
\<close>

theorem module_load_handler_settings_failure_witness:
  "ajax sample_env page_SETTINGS_URL = Inl ''Not Found'' \<and>
   snd (module_load_handler sample_env initial_world) =
     Some (settings_load_error page_SETTINGS_URL ''Not Found'') \<and>
   page_SETTINGS (fst (module_load_handler sample_env initial_world)) = None \<and>
   block_HANDLERS (fst (module_load_handler sample_env initial_world)) = [] \<and>
   PAGE_LOAD_HANDLERS (fst (module_load_handler sample_env initial_world)) = [] \<and>
   APP_LOAD_HANDLERS (fst (module_load_handler sample_env initial_world)) = []"
proof -
  have a: "ajax sample_env page_SETTINGS_URL = Inl ''Not Found''"
    by (simp add: sample_env_def)
  have i: "page_SETTINGS initial_world = None" "block_HANDLERS initial_world = []"
    "PAGE_LOAD_HANDLERS initial_world = []" "APP_LOAD_HANDLERS initial_world = []"
    by (simp_all add: initial_world_def)
  note th = module_load_handler_settings_failure [OF a, of initial_world]
  from th have r: "snd (module_load_handler sample_env initial_world) =
      Some (settings_load_error page_SETTINGS_URL ''Not Found'')"
    by simp
  from th i have f: "page_SETTINGS (fst (module_load_handler sample_env initial_world)) = None"
    "block_HANDLERS (fst (module_load_handler sample_env initial_world)) = []"
    "PAGE_LOAD_HANDLERS (fst (module_load_handler sample_env initial_world)) = []"
    "APP_LOAD_HANDLERS (fst (module_load_handler sample_env initial_world)) = []"
    by metis+
  from a r f show ?thesis
    by blast
qed

subsection \<open>The bootstrap reaction\<close>

lemma page_scroll_effects:
  "effects (page_scroll env url w) =
     effects w @ (case fragment_top env w (scroll_fragmentId env url) of
                    None \<Rightarrow> [] | Some y \<Rightarrow> [Animate_scrollTop y])"
  by (simp add: page_scroll_def strictError_def Let_def split: option.split)

lemma page_scroll_strict_errors:
  "strict_errors (page_scroll env url w) =
     strict_errors w @ (case fragment_top env w (scroll_fragmentId env url) of
                          None \<Rightarrow> [scroll_warning (scroll_fragmentId env url)] | Some y \<Rightarrow> [])"
  by (simp add: page_scroll_def strictError_def Let_def split: option.split)

text \<open>
  C8. When the settings load, the module load handler registers the bootstrap reaction
  over them. At application load the reaction takes the identifier of the current URL
  if there is one, and \<open>default_page_id\<close> of the settings otherwise; it calls \<open>execute\<close>
  with that identifier, and when \<open>execute\<close> calls back, whatever it passes, the reaction
  runs the fade-in effect and then the scroll-to-fragment effect, which animates to the
  fragment or reports that the page has no such element. With \<open>default_page_id\<close> equal
  to \<open>home\<close> and no identifier in the URL, the identifier is \<open>home\<close>.
\<close>

theorem app_load_handler_bootstrap:
  assumes "PageLoadHandlerStore_execute env (Some (initial_page_id env s url)) w =
             (w1, Callback e v)"
  shows "(\<forall>doc w0. ajax env page_SETTINGS_URL = Inr doc \<longrightarrow>
            APP_LOAD_HANDLERS (fst (module_load_handler env w0)) =
              APP_LOAD_HANDLERS w0 @ [PageAppLoad (page_parseSettings doc)]) \<and>
         call_app_load_handler env (PageAppLoad s) url w = app_load_handler env s url w \<and>
         (\<forall>i. getIdFromURL env url = Some i \<and> i \<noteq> [] \<longrightarrow> initial_page_id env s url = i) \<and>
         (blank (getIdFromURL env url) \<longrightarrow> initial_page_id env s url = default_page_id s) \<and>
         (getIdFromURL env url = None \<and> default_page_id s = ''home'' \<longrightarrow>
            initial_page_id env s url = ''home'') \<and>
         app_load_handler env s url w = (page_scroll env url (page_fadein w1), NoCallback) \<and>
         effects (fst (app_load_handler env s url w)) =
           effects w1 @ Overlay_fadeOut 250 #
             (case fragment_top env (page_fadein w1) (scroll_fragmentId env url) of
                None \<Rightarrow> [] | Some y \<Rightarrow> [Animate_scrollTop y]) \<and>
         strict_errors (fst (app_load_handler env s url w)) =
           strict_errors w1 @
             (case fragment_top env (page_fadein w1) (scroll_fragmentId env url) of
                None \<Rightarrow> [scroll_warning (scroll_fragmentId env url)] | Some y \<Rightarrow> [])"
proof -
  have reg: "\<forall>doc w0. ajax env page_SETTINGS_URL = Inr doc \<longrightarrow>
            APP_LOAD_HANDLERS (fst (module_load_handler env w0)) =
              APP_LOAD_HANDLERS w0 @ [PageAppLoad (page_parseSettings doc)]"
    by (simp add: module_load_handler_def page_loadSettings_def PageLoadHandlerStore_add_def
        Let_def)
  have url_id: "\<forall>i. getIdFromURL env url = Some i \<and> i \<noteq> [] \<longrightarrow> initial_page_id env s url = i"
    by (simp add: initial_page_id_def)
  have default_id: "blank (getIdFromURL env url) \<longrightarrow> initial_page_id env s url = default_page_id s"
    by (cases "getIdFromURL env url") (simp_all add: initial_page_id_def)
  have home: "getIdFromURL env url = None \<and> default_page_id s = ''home'' \<longrightarrow>
            initial_page_id env s url = ''home''"
    by (simp add: initial_page_id_def)
  have run: "app_load_handler env s url w = (page_scroll env url (page_fadein w1), NoCallback)"
    using assms by (simp add: app_load_handler_def Let_def)
  have eff: "effects (fst (app_load_handler env s url w)) =
           effects w1 @ Overlay_fadeOut 250 #
             (case fragment_top env (page_fadein w1) (scroll_fragmentId env url) of
                None \<Rightarrow> [] | Some y \<Rightarrow> [Animate_scrollTop y])"
    by (simp add: run page_scroll_effects) (simp add: page_fadein_def)
  have rep: "strict_errors (fst (app_load_handler env s url w)) =
           strict_errors w1 @
             (case fragment_top env (page_fadein w1) (scroll_fragmentId env url) of
                None \<Rightarrow> [scroll_warning (scroll_fragmentId env url)] | Some y \<Rightarrow> [])"
    by (simp add: run page_scroll_strict_errors) (simp add: page_fadein_def)
  have call: "call_app_load_handler env (PageAppLoad s) url w = app_load_handler env s url w"
    by simp
  from reg call url_id default_id home run eff rep show ?thesis
    by blast
qed

text \<open>
  C8 on the scenario of the spec: the settings \<open>home\<close> and \<open>error.tpl\<close> are loaded on
  the initial state, the URL has no identifier, and the page has no element \<open>top\<close>.
  The one registered reaction is given \<open>home\<close>; the overlay is faded and the missing
  scroll target is reported.
\<close>

theorem app_load_handler_bootstrap_witness:
  "ajax bootstrap_env page_SETTINGS_URL = Inr sample_document \<and>
   page_parseSettings sample_document = sample_settings \<and>
   APP_LOAD_HANDLERS (fst (module_load_handler bootstrap_env initial_world)) =
     [PageAppLoad sample_settings] \<and>
   getIdFromURL bootstrap_env ''http://example.org/'' = None \<and>
   initial_page_id bootstrap_env sample_settings ''http://example.org/'' = ''home'' \<and>
   snd (PageLoadHandlerStore_execute bootstrap_env (Some ''home'')
          (fst (module_load_handler bootstrap_env initial_world))) = Callback None None \<and>
   containers
     (fst (app_load_handler bootstrap_env sample_settings ''http://example.org/''
             (fst (module_load_handler bootstrap_env initial_world)))) 0 = [TextNode ''home''] \<and>
   effects
     (fst (app_load_handler bootstrap_env sample_settings ''http://example.org/''
             (fst (module_load_handler bootstrap_env initial_world)))) = [Overlay_fadeOut 250] \<and>
   strict_errors
     (fst (app_load_handler bootstrap_env sample_settings ''http://example.org/''
             (fst (module_load_handler bootstrap_env initial_world)))) = [scroll_warning ''top'']"
proof -
  let ?url = "''http://example.org/''"
  let ?w = "fst (module_load_handler bootstrap_env initial_world)"
  let ?w1 = "jQuery_append 0 (Some (TextNode ''home'')) (jQuery_empty 0 ?w)"
  have a: "ajax bootstrap_env page_SETTINGS_URL = Inr sample_document"
    by (simp add: bootstrap_env_def sample_env_def)
  have p: "page_parseSettings sample_document = sample_settings"
    by (simp add: page_parseSettings_def sample_document_def sample_settings_def)
  have w: "?w = initial_world
      \<lparr>page_SETTINGS := Some sample_settings,
       block_HANDLERS := [(''page_block'', Page_block)],
       PAGE_LOAD_HANDLERS := [ExpandDocumentBlocks],
       APP_LOAD_HANDLERS := [PageAppLoad sample_settings]\<rparr>"
    by (simp add: module_load_handler_def page_loadSettings_def a p Let_def
        PageLoadHandlerStore_add_def initial_world_def)
  have u: "getIdFromURL bootstrap_env ?url = None"
    by (simp add: bootstrap_env_def sample_env_def)
  have f: "getFragmentFromURL bootstrap_env ?url = None"
    by (simp add: bootstrap_env_def sample_env_def)
  have t: "\<And>x i. fragment_top bootstrap_env x i = None"
    by (simp add: bootstrap_env_def sample_env_def)
  have d: "default_page_id sample_settings = ''home''"
    by (simp add: sample_settings_def)
  have x: "block_expandDocumentBlocks bootstrap_env (Some ''home'') ?w = (?w1, Callback None None)"
    by (simp add: bootstrap_env_def sample_env_def)
  have plh: "PAGE_LOAD_HANDLERS ?w = [ExpandDocumentBlocks]"
    by (simp add: w)
  have e: "PageLoadHandlerStore_execute bootstrap_env (Some ''home'') ?w = (?w1, Callback None None)"
    by (simp add: PageLoadHandlerStore_execute_def async_applyEach_def plh x)
  note th = app_load_handler_bootstrap [of bootstrap_env sample_settings ?url ?w ?w1 None None]
  from th u d have i: "initial_page_id bootstrap_env sample_settings ?url = ''home''"
    using e by (simp add: initial_page_id_def)
  from e i have e': "PageLoadHandlerStore_execute bootstrap_env
      (Some (initial_page_id bootstrap_env sample_settings ?url)) ?w = (?w1, Callback None None)"
    by simp
  from th [OF e'] have run: "app_load_handler bootstrap_env sample_settings ?url ?w =
      (page_scroll bootstrap_env ?url (page_fadein ?w1), NoCallback)"
    by blast
  from th [OF e'] have eff: "effects (fst (app_load_handler bootstrap_env sample_settings ?url ?w)) =
      effects ?w1 @ Overlay_fadeOut 250 #
        (case fragment_top bootstrap_env (page_fadein ?w1) (scroll_fragmentId bootstrap_env ?url) of
           None \<Rightarrow> [] | Some y \<Rightarrow> [Animate_scrollTop y])"
    by blast
  from th [OF e'] have rep: "strict_errors (fst (app_load_handler bootstrap_env sample_settings ?url ?w)) =
      strict_errors ?w1 @
        (case fragment_top bootstrap_env (page_fadein ?w1) (scroll_fragmentId bootstrap_env ?url) of
           None \<Rightarrow> [scroll_warning (scroll_fragmentId bootstrap_env ?url)] | Some y \<Rightarrow> [])"
    by blast
  from th [OF e'] a p have reg: "APP_LOAD_HANDLERS ?w =
      APP_LOAD_HANDLERS initial_world @ [PageAppLoad sample_settings]"
    by metis
  then have reg': "APP_LOAD_HANDLERS ?w = [PageAppLoad sample_settings]"
    by (simp add: initial_world_def)
  have w1e: "effects ?w1 = []" "strict_errors ?w1 = []"
    unfolding w by (simp_all add: jQuery_append_def jQuery_empty_def initial_world_def)
  have fr: "scroll_fragmentId bootstrap_env ?url = ''top''"
    by (simp add: scroll_fragmentId_def f)
  from eff have eff': "effects (fst (app_load_handler bootstrap_env sample_settings ?url ?w)) =
      [Overlay_fadeOut 250]"
    by (simp add: t w1e)
  from rep have rep': "strict_errors (fst (app_load_handler bootstrap_env sample_settings ?url ?w)) =
      [scroll_warning ''top'']"
    by (simp add: t w1e fr)
  have cont: "containers (fst (app_load_handler bootstrap_env sample_settings ?url ?w)) 0 =
      [TextNode ''home'']"
    by (simp add: run page_scroll_def Let_def t strictError_def page_fadein_def
        jQuery_append_def jQuery_empty_def)
  from e have e2: "snd (PageLoadHandlerStore_execute bootstrap_env (Some ''home'') ?w) =
      Callback None None"
    by simp
  from a p reg' u i e2 cont eff' rep' show ?thesis
    by blast
qed

subsection \<open>The list of reactions only grows\<close>


























subsection \<open>The protocol of execute\<close>









end
